theory Spec2Isabelle
  imports Complex_Main "HOL-Library.Sublist"
begin

section \<open>Shared utilities (core.js)\<close>

text \<open>
  JavaScript numbers are IEEE doubles. Scores are results of \<open>Math.round\<close> and are modelled
  as \<open>int\<close>; sensor readings, probabilities and energies are modelled as \<open>real\<close>, so every
  statement below is about the exact arithmetic that the doubles approximate.
\<close>

definition LAUGH_SCORE_KEY :: string where
  "LAUGH_SCORE_KEY = ''scores_laugh''"

definition SHAKE_SCORE_KEY :: string where
  "SHAKE_SCORE_KEY = ''scores_shake''"

text \<open>\<open>clamp = (value, min, max) => Math.max(min, Math.min(max, value))\<close>\<close>

definition clamp :: "real \<Rightarrow> real \<Rightarrow> real \<Rightarrow> real" where
  "clamp v lo hi = max lo (min hi v)"

text \<open>
  \<open>Math.round\<close>: the integer nearest to the argument, a tie going towards plus infinity.
\<close>

definition Math_round :: "real \<Rightarrow> int" where
  "Math_round x = \<lfloor>x + 1 / 2\<rfloor>"

subsection \<open>escapeHtml\<close>

text \<open>
  The replacement callback of \<open>escapeHtml\<close>: the object literal looked up at the matched
  character. The regular expression \<open>/[&<>"']/g\<close> matches exactly the five keys, every other
  character is copied.
\<close>

definition escapeChar :: "char \<Rightarrow> string" where
  "escapeChar c =
     (if c = CHR ''&'' then ''&amp;''
      else if c = CHR ''<'' then ''&lt;''
      else if c = CHR ''>'' then ''&gt;''
      else if c = CHR 0x22 then ''&quot;''
      else if c = CHR 0x27 then ''&#39;''
      else [c])"

text \<open>
  \<open>(str || "").replace(...)\<close>: a missing argument (\<open>null\<close>, \<open>undefined\<close>) is \<open>None\<close> and is
  treated as the empty string.
\<close>

definition escapeHtml :: "string option \<Rightarrow> string" where
  "escapeHtml str = concat (map escapeChar (case str of None \<Rightarrow> [] | Some s \<Rightarrow> s))"

text \<open>The five entities, without their leading ampersand.\<close>

definition entity_tails :: "string list" where
  "entity_tails = [''amp;'', ''lt;'', ''gt;'', ''quot;'', ''#39;'']"

subsection \<open>Leaderboard storage\<close>

record ScoreEntry =
  name :: string
  score :: int
  ts :: int

text \<open>
  A \<open>localStorage\<close> slot holds a string: either one that \<open>JSON.parse\<close> rejects, or the
  encoding of an array of entries. An absent key is \<open>None\<close>.
\<close>

datatype item = Unparseable | Parsed "ScoreEntry list"

type_synonym localStorage = "string \<rightharpoonup> item"

definition score_key :: "string \<Rightarrow> string" where
  "score_key mode = (if mode = ''laugh'' then LAUGH_SCORE_KEY else SHAKE_SCORE_KEY)"

text \<open>
  \<open>loadScores\<close>: a missing key reads as \<open>"[]"\<close>, a parse error is caught and gives \<open>[]\<close>.
\<close>

definition loadScores :: "localStorage \<Rightarrow> string \<Rightarrow> ScoreEntry list" where
  "loadScores st mode =
     (case st (score_key mode) of
        None \<Rightarrow> []
      | Some Unparseable \<Rightarrow> []
      | Some (Parsed scores) \<Rightarrow> scores)"

text \<open>
  \<open>saveScore\<close>. \<open>now\<close> is the reading of \<open>Date.now()\<close>. \<open>Array.prototype.sort\<close> is stable, and
  the comparator \<open>(b.score || 0) - (a.score || 0)\<close> orders by descending score; the stable
  insertion sort by the key \<open>- score\<close> computes the same array. The function returns the new
  storage and the reported flag.
\<close>

definition saveScore :: "localStorage \<Rightarrow> int \<Rightarrow> string \<Rightarrow> string \<Rightarrow> int \<Rightarrow> localStorage \<times> bool" where
  "saveScore st now mode nm sc =
     (let scores = loadScores st mode;
          personalBest = (case scores of [] \<Rightarrow> 0 | e # _ \<Rightarrow> score e);
          pushed = scores @ [\<lparr>name = nm, score = sc, ts = now\<rparr>];
          sorted_scores = sort_key (\<lambda>e. - score e) pushed;
          top10 = take 10 sorted_scores;
          key = score_key mode
      in (st(key \<mapsto> Parsed top10), sc > personalBest))"

text \<open>The leaderboard invariant: at most ten entries, scores non-increasing along the array.\<close>

definition leaderboard_inv :: "ScoreEntry list \<Rightarrow> bool" where
  "leaderboard_inv xs \<longleftrightarrow> length xs \<le> 10 \<and> sorted_wrt (\<lambda>a b. score a \<ge> score b) xs"


section \<open>User interface effects (ui.js)\<close>

text \<open>
  The DOM state that the scoring code writes through \<open>ui.js\<close>: the status line with its level,
  the enablement of the three buttons, for every meter the bar width in percent and the number
  that its text renders, the confetti bursts requested, and the debug log.
\<close>

record UI =
  status :: "string \<times> string"
  buttons :: "bool \<times> bool \<times> bool"
  meterBar :: "string \<Rightarrow> real"
  meterTxt :: "string \<Rightarrow> real"
  confetti :: nat
  debugLog :: "string list"

definition setStatus :: "string \<Rightarrow> string \<Rightarrow> UI \<Rightarrow> UI" where
  "setStatus text level u = u\<lparr>status := (text, level)\<rparr>"

text \<open>
  \<open>updateMeter(name, percentage, text)\<close>: the bar width is \<open>Math.max(0, Math.min(100, percentage))\<close>;
  the third argument is the number that the caller formats into the text.
\<close>

definition updateMeter :: "string \<Rightarrow> real \<Rightarrow> real \<Rightarrow> UI \<Rightarrow> UI" where
  "updateMeter nm percentage shown u =
     u\<lparr>meterBar := (meterBar u)(nm := max 0 (min 100 percentage)),
       meterTxt := (meterTxt u)(nm := shown)\<rparr>"

definition setButtonStates :: "bool \<Rightarrow> bool \<Rightarrow> bool \<Rightarrow> UI \<Rightarrow> UI" where
  "setButtonStates start stop again u = u\<lparr>buttons := (start, stop, again)\<rparr>"

definition logDebug :: "string \<Rightarrow> UI \<Rightarrow> UI" where
  "logDebug message u = u\<lparr>debugLog := debugLog u @ [message]\<rparr>"

definition triggerConfetti :: "UI \<Rightarrow> UI" where
  "triggerConfetti u = u\<lparr>confetti := Suc (confetti u)\<rparr>"

section \<open>Round state shared by both modes\<close>

text \<open>
  Each mode's module keeps a flag \<open>isRoundRunning\<close>; the closure of a round holds
  \<open>elapsedTime\<close> and \<open>playerName\<close>. \<open>storage\<close> is the browser's \<open>localStorage\<close>.
\<close>

record Round =
  isRoundRunning :: bool
  elapsedTime :: real
  playerName :: string
  storage :: localStorage
  ui :: UI

definition ROUND_DURATION :: real where
  "ROUND_DURATION = 10000"

text \<open>\<open>rms\<close>: the loop \<open>for (const amp of data) sumSquares += amp * amp\<close> and the square root
  of the mean.\<close>

definition rms :: "real list \<Rightarrow> real" where
  "rms data = sqrt (foldl (\<lambda>sumSquares amp. sumSquares + amp * amp) 0 data / real (length data))"

section \<open>Laugh mode (laugh.js)\<close>

subsection \<open>Calibration\<close>

text \<open>
  The calibration loop \<open>while (performance.now() < calibEndTime)\<close>. Its environment is the
  sequence of observations it makes: the clock reading of each loop test, paired with the
  analyser frame read if the test succeeds. The loop returns \<open>(rmsSum, rmsCount)\<close> at the first
  reading that is not before the deadline; \<open>None\<close> means that the given observations end
  before the loop does.
\<close>

fun calibrationLoop :: "real \<Rightarrow> (real \<times> real list) list \<Rightarrow> real \<Rightarrow> nat \<Rightarrow> (real \<times> nat) option" where
  "calibrationLoop calibEndTime [] rmsSum rmsCount = None"
| "calibrationLoop calibEndTime ((t, calibData) # obs) rmsSum rmsCount =
     (if t < calibEndTime
      then calibrationLoop calibEndTime obs (rmsSum + rms calibData) (Suc rmsCount)
      else Some (rmsSum, rmsCount))"

text \<open>
  \<open>calibEndTime = performance.now() + 2000\<close>, then the loop, then
  \<open>baselineRMS = rmsCount > 0 ? (rmsSum / rmsCount) : 0.01\<close>.
\<close>

definition calibrate :: "real \<Rightarrow> (real \<times> real list) list \<Rightarrow> real option" where
  "calibrate startTime obs =
     (case calibrationLoop (startTime + 2000) obs 0 0 of
        None \<Rightarrow> None
      | Some (rmsSum, rmsCount) \<Rightarrow>
          Some (if rmsCount > 0 then rmsSum / real rmsCount else 1 / 100))"

text \<open>The RMS samples that a calibration run collects: those read before the deadline.\<close>

definition calibrationSamples :: "real \<Rightarrow> (real \<times> real list) list \<Rightarrow> real list" where
  "calibrationSamples startTime obs =
     map (\<lambda>(t, calibData). rms calibData) (takeWhile (\<lambda>(t, calibData). t < startTime + 2000) obs)"

subsection \<open>Classifier results\<close>

record Category =
  categoryName :: string
  catScore :: real

text \<open>
  One call of the classifier: it throws (with a message), or it yields the category list that
  \<open>?.[0]?.classifications?.[0]?.categories || []\<close> extracts, empty when any part is missing.
\<close>

datatype classify_result = Raises string | Categories "Category list"

definition toLowerChar :: "char \<Rightarrow> char" where
  "toLowerChar c =
     (let n = (of_char c :: nat) in if 65 \<le> n \<and> n \<le> 90 then char_of (n + 32) else c)"

definition toLowerCase :: "string \<Rightarrow> string" where
  "toLowerCase s = map toLowerChar s"

fun str_includes :: "string \<Rightarrow> string \<Rightarrow> bool" where
  "str_includes [] sub = (sub = [])"
| "str_includes (c # cs) sub = (prefix sub (c # cs) \<or> str_includes cs sub)"

definition isLaughterCategory :: "string \<Rightarrow> bool" where
  "isLaughterCategory nm =
     (let n = toLowerCase nm
      in str_includes n ''laugh'' \<or> str_includes n ''giggle'' \<or> str_includes n ''chuckle'' \<or>
         str_includes n ''chortle'' \<or> str_includes n ''snicker'')"

text \<open>
  The laughter probability of one tick: a classifier error leaves \<open>classifications = []\<close>;
  the sum over the laughter categories is clamped to \<open>[0, 1]\<close>.
\<close>

definition laughProb :: "classify_result \<Rightarrow> real" where
  "laughProb r =
     (let classifications = (case r of Raises msg \<Rightarrow> [] | Categories cs \<Rightarrow> cs);
          p = foldl (\<lambda>sum cat. sum + (if isLaughterCategory (categoryName cat) then catScore cat else 0))
                0 classifications
      in clamp p 0 1)"

subsection \<open>Round state and the tick\<close>

record LaughRound = Round +
  audioGraph :: bool
  gameLoopTimer :: bool
  baselineRMS :: real
  emaLaughProb :: real
  laughProbSum :: real
  frameCount :: nat
  loudPenalty :: real
  streak :: nat
  streakBonus :: nat

definition EMA_ALPHA :: real where
  "EMA_ALPHA = 2 / 10"

definition TICK_INTERVAL :: real where
  "TICK_INTERVAL = 250"

text \<open>
  \<open>cleanupAudio\<close>: clears the flag and releases the analyser, the script processor and the
  audio context (\<open>audioGraph\<close>).
\<close>

definition cleanupAudio :: "LaughRound \<Rightarrow> LaughRound" where
  "cleanupAudio s = s\<lparr>isRoundRunning := False, audioGraph := False\<rparr>"

text \<open>
  \<open>stopRound\<close> of the laugh round. \<open>now\<close> is the reading of \<open>Date.now()\<close> inside \<open>saveScore\<close>.
\<close>

definition laughStopRound :: "int \<Rightarrow> string \<Rightarrow> int \<Rightarrow> LaughRound \<Rightarrow> LaughRound" where
  "laughStopRound now nm finalScore s =
     (if \<not> isRoundRunning s then s
      else
        let s1 = cleanupAudio (s\<lparr>isRoundRunning := False, gameLoopTimer := False\<rparr>);
            u1 = setButtonStates False False True (setStatus ''Round finished!'' ''ok'' (ui s1));
            (st, isNewBest) = saveScore (storage s1) now ''laugh'' nm finalScore;
            u2 = (if isNewBest then triggerConfetti (setStatus ''New personal best!'' ''ok'' u1) else u1)
        in s1\<lparr>storage := st, ui := u2\<rparr>)"

text \<open>The stop button: \<open>onclick = () => stopRound(playerName, 0)\<close>.\<close>

definition laughStopClick :: "int \<Rightarrow> LaughRound \<Rightarrow> LaughRound" where
  "laughStopClick now s = laughStopRound now (playerName s) 0 s"

text \<open>
  The start of the game phase of \<open>startLaughRound\<close>, after calibration gave \<open>baseline\<close>:
  the flag is set and the accumulators of the round are initialised.
\<close>

definition laughBegin :: "string \<Rightarrow> real \<Rightarrow> LaughRound \<Rightarrow> LaughRound" where
  "laughBegin nm baseline s =
     s\<lparr>isRoundRunning := True, elapsedTime := 0, playerName := nm,
       ui := setStatus ''Go! Laugh for 10 seconds!'' ''ok'' (ui s),
       audioGraph := True, gameLoopTimer := True, baselineRMS := baseline,
       emaLaughProb := 0, laughProbSum := 0, frameCount := 0,
       loudPenalty := 0, streak := 0, streakBonus := 0\<rparr>"

text \<open>
  What one tick reads from its environment: the analyser frame, the outcome of the classifier
  call, and the clock for a score entry.
\<close>

record TickInput =
  rmsData :: "real list"
  classified :: classify_result
  dateNow :: int

text \<open>The score that a tick computes from the accumulators it has just updated.\<close>

definition joyRank :: "LaughRound \<Rightarrow> int" where
  "joyRank s =
     (let baseScore = 100 * (laughProbSum s / real (frameCount s));
          finalPenalty = 15 * loudPenalty s;
          finalBonus = 2 * real (streakBonus s)
      in Math_round (max 0 (baseScore - finalPenalty + finalBonus)))"

text \<open>
  The body of the \<open>setInterval\<close> callback \<open>gameLoop\<close>, in the order of the source. First the
  loudness penalty: \<open>if (currentRMS > loudThreshold) loudPenalty += Math.min(0.03, currentRMS - loudThreshold)\<close>
  with \<open>loudThreshold = baselineRMS + 0.10\<close>.
\<close>

definition penaltyUpdate :: "real \<Rightarrow> real \<Rightarrow> real \<Rightarrow> real" where
  "penaltyUpdate baseline currentRMS penalty =
     (let loudThreshold = baseline + 10 / 100
      in if currentRMS > loudThreshold
         then penalty + min (3 / 100) (currentRMS - loudThreshold)
         else penalty)"

definition tickLoudness :: "real list \<Rightarrow> LaughRound \<Rightarrow> LaughRound" where
  "tickLoudness data s =
     (let currentRMS = rms data
      in s\<lparr>loudPenalty := penaltyUpdate (baselineRMS s) currentRMS (loudPenalty s)\<rparr>)"

text \<open>The \<open>try\<close>/\<open>catch\<close> around the classifier call: an error is logged and nothing else.\<close>

definition tickClassify :: "classify_result \<Rightarrow> LaughRound \<Rightarrow> LaughRound" where
  "tickClassify r s =
     (case r of
        Raises msg \<Rightarrow> s\<lparr>ui := logDebug (''Classification error: '' @ msg) (ui s)\<rparr>
      | Categories cs \<Rightarrow> s)"

text \<open>
  The streak counter and the bonus, as a function of the pair \<open>(streak, streakBonus)\<close>:
  \<open>if (p >= 0.6) { streak++; if (streak > 0 && streak % 4 === 0) streakBonus++; } else { streak = 0; }\<close>
\<close>

definition streakUpdate :: "real \<Rightarrow> nat \<times> nat \<Rightarrow> nat \<times> nat" where
  "streakUpdate p kb =
     (case kb of (k, b) \<Rightarrow>
        if p \<ge> 6 / 10
        then (let k' = Suc k in (k', if k' > 0 \<and> k' mod 4 = 0 then Suc b else b))
        else (0, b))"

definition tickStreak :: "real \<Rightarrow> LaughRound \<Rightarrow> LaughRound" where
  "tickStreak p s =
     (case streakUpdate p (streak s, streakBonus s) of
        (k, b) \<Rightarrow> s\<lparr>streak := k, streakBonus := b\<rparr>)"

text \<open>The running sum and count of \<open>p\<close>, the moving average and its meter.\<close>

definition tickMean :: "real \<Rightarrow> LaughRound \<Rightarrow> LaughRound" where
  "tickMean p s =
     (let s1 = s\<lparr>laughProbSum := laughProbSum s + p, frameCount := Suc (frameCount s)\<rparr>;
          ema = EMA_ALPHA * (p * 100) + (1 - EMA_ALPHA) * emaLaughProb s1
      in s1\<lparr>emaLaughProb := ema, ui := updateMeter ''laugh'' ema ema (ui s1)\<rparr>)"

text \<open>The whole tick: the four updates, the score with its meter, the elapsed time and the end
  of the round.\<close>

definition laughGameLoop :: "TickInput \<Rightarrow> LaughRound \<Rightarrow> LaughRound" where
  "laughGameLoop inp s =
     (if \<not> isRoundRunning s then s
      else
        let s1 = tickLoudness (rmsData inp) s;
            s2 = tickClassify (classified inp) s1;
            p = laughProb (classified inp);
            s3 = tickStreak p s2;
            s4 = tickMean p s3;
            r = joyRank s4;
            s5 = s4\<lparr>ui := updateMeter ''joy'' (real_of_int r) (real_of_int r) (ui s4)\<rparr>;
            s6 = s5\<lparr>elapsedTime := elapsedTime s5 + TICK_INTERVAL\<rparr>
        in if elapsedTime s6 \<ge> ROUND_DURATION
           then laughStopRound (dateNow inp) (playerName s6) r s6
           else s6)"

text \<open>A run of ticks, in order.\<close>

definition laughTicks :: "TickInput list \<Rightarrow> LaughRound \<Rightarrow> LaughRound" where
  "laughTicks inps s = foldl (\<lambda>s inp. laughGameLoop inp s) s inps"

text \<open>
  The score formula in the words of the specification:
  \<open>round(max(0, 100 * mean(p) - 15 * cumulativeLoudPenalty + 2 * streakBonus))\<close>.
\<close>

definition spec_laugh_score :: "real \<Rightarrow> real \<Rightarrow> nat \<Rightarrow> int" where
  "spec_laugh_score meanP cumulativeLoudPenalty bonus =
     Math_round (max 0 (100 * meanP - 15 * cumulativeLoudPenalty + 2 * real bonus))"

section \<open>Shake mode (shake.js)\<close>

text \<open>
  A \<open>DeviceMotionEvent\<close>. Every axis of a reading may be \<open>null\<close> (\<open>None\<close>), and each of the
  three readings may be absent. A \<open>timeStamp\<close> of 0 is falsy.
\<close>

type_synonym vec3 = "real option \<times> real option \<times> real option"

record DeviceMotionEvent =
  timeStamp :: real
  acceleration :: "vec3 option"
  accelerationIncludingGravity :: "vec3 option"
  rotationRate :: "vec3 option"

text \<open>\<open>ToNumber\<close> on an axis value: \<open>null\<close> converts to 0 (in \<open>Math.hypot\<close>, in \<open>null - 9.81\<close>
  and in \<open>rot.alpha || 0\<close>).\<close>

definition num :: "real option \<Rightarrow> real" where
  "num v = (case v of None \<Rightarrow> 0 | Some r \<Rightarrow> r)"

definition Math_hypot :: "real \<Rightarrow> real \<Rightarrow> real \<Rightarrow> real" where
  "Math_hypot a b c = sqrt (a * a + b * b + c * c)"

record ShakeRound = Round +
  listening :: bool
  gameLoopId :: bool
  motionDataAvailable :: bool
  lastTimestamp :: real
  integratedAccEnergy :: real
  integratedRotEnergy :: real
  liveAcceleration :: real
  liveRotation :: real

definition FRAME_INTERVAL :: real where
  "FRAME_INTERVAL = 1000 / 60"

text \<open>
  The delta-time of a motion event: \<open>lastTimestamp ? (now - lastTimestamp) / 1000 : 0.016\<close>,
  then \<open>if (dt <= 0 || dt > 0.25) dt = 0.016\<close>.
\<close>

definition motion_dt :: "real \<Rightarrow> real \<Rightarrow> real" where
  "motion_dt lastTs now =
     (let dt = (if lastTs \<noteq> 0 then (now - lastTs) / 1000 else 16 / 1000)
      in if dt \<le> 0 \<or> dt > 25 / 100 then 16 / 1000 else dt)"

text \<open>
  The linear acceleration magnitude: the gravity-free reading if its \<open>x\<close> is not \<open>null\<close>, else
  the reading with gravity with 9.81 taken off \<open>z\<close>, else zero.
\<close>

definition accMagnitude :: "DeviceMotionEvent \<Rightarrow> real" where
  "accMagnitude ev =
     (case acceleration ev of
        Some (Some ax, ay, az) \<Rightarrow> Math_hypot ax (num ay) (num az)
      | _ \<Rightarrow>
        (case accelerationIncludingGravity ev of
           Some (Some gx, gy, gz) \<Rightarrow> Math_hypot gx (num gy) (num gz - 981 / 100)
         | _ \<Rightarrow> Math_hypot 0 0 0))"

definition rotMagnitude :: "DeviceMotionEvent \<Rightarrow> real" where
  "rotMagnitude ev =
     (case rotationRate ev of
        None \<Rightarrow> Math_hypot 0 0 0
      | Some (alpha, beta, gamma) \<Rightarrow> Math_hypot (num alpha) (num beta) (num gamma))"

text \<open>
  \<open>onDeviceMotion\<close>. \<open>perfNow\<close> is the reading of \<open>performance.now()\<close>, used when the event's
  \<open>timeStamp\<close> is falsy.
\<close>

definition onDeviceMotion :: "real \<Rightarrow> DeviceMotionEvent \<Rightarrow> ShakeRound \<Rightarrow> ShakeRound" where
  "onDeviceMotion perfNow ev s =
     (let now = (if timeStamp ev \<noteq> 0 then timeStamp ev else perfNow);
          dt = motion_dt (lastTimestamp s) now;
          acc = accMagnitude ev;
          rot = rotMagnitude ev;
          rotRad = rot * (pi / 180)
      in s\<lparr>motionDataAvailable := True, lastTimestamp := now,
            liveAcceleration := acc, liveRotation := rot,
            integratedAccEnergy := integratedAccEnergy s + (acc * acc) * dt,
            integratedRotEnergy := integratedRotEnergy s + (rotRad * rotRad) * dt\<rparr>)"

text \<open>\<open>cleanupMotion\<close>: clears the flag, removes the listener and cancels the pending frame.\<close>

definition cleanupMotion :: "ShakeRound \<Rightarrow> ShakeRound" where
  "cleanupMotion s = s\<lparr>isRoundRunning := False, listening := False, gameLoopId := False\<rparr>"

definition shakeStopRound :: "int \<Rightarrow> string \<Rightarrow> int \<Rightarrow> ShakeRound \<Rightarrow> ShakeRound" where
  "shakeStopRound now nm finalScore s =
     (if \<not> isRoundRunning s then s
      else
        let s1 = cleanupMotion s;
            u1 = setButtonStates False False True (setStatus ''Round finished!'' ''ok'' (ui s1));
            (st, isNewBest) = saveScore (storage s1) now ''shake'' nm finalScore;
            u2 = (if isNewBest then triggerConfetti (setStatus ''New personal best!'' ''ok'' u1) else u1)
        in s1\<lparr>storage := st, ui := u2\<rparr>)"

definition shakeStopClick :: "int \<Rightarrow> ShakeRound \<Rightarrow> ShakeRound" where
  "shakeStopClick now s = shakeStopRound now (playerName s) 0 s"

text \<open>The reset at the start of \<open>startShakeRound\<close>, once permission is settled.\<close>

definition shakeBegin :: "string \<Rightarrow> ShakeRound \<Rightarrow> ShakeRound" where
  "shakeBegin nm s =
     (cleanupMotion s)\<lparr>isRoundRunning := True, elapsedTime := 0, playerName := nm,
       ui := setStatus ''Go! Shake your device for 10 seconds!'' ''ok'' (ui s),
       listening := True, motionDataAvailable := False, lastTimestamp := 0,
       integratedAccEnergy := 0, integratedRotEnergy := 0,
       liveAcceleration := 0, liveRotation := 0\<rparr>"

text \<open>The score that a frame computes from the two accumulators.\<close>

definition shakeRank :: "ShakeRound \<Rightarrow> int" where
  "shakeRank s = Math_round (6 * integratedAccEnergy s + 2 * integratedRotEnergy s)"

text \<open>The self-rescheduling frame callback \<open>gameLoop\<close>; \<open>now\<close> is the clock for a score entry.\<close>

definition shakeGameLoop :: "int \<Rightarrow> ShakeRound \<Rightarrow> ShakeRound" where
  "shakeGameLoop now s =
     (if \<not> isRoundRunning s then s
      else
        let u1 = updateMeter ''acc'' (clamp (liveAcceleration s * 6) 0 100) (liveAcceleration s) (ui s);
            u2 = updateMeter ''rot'' (clamp (liveRotation s * (4 / 10)) 0 100) (liveRotation s) u1;
            r = shakeRank s;
            u3 = updateMeter ''shake'' (clamp (real_of_int r / 5) 0 100) (real_of_int r) u2;
            s1 = s\<lparr>ui := u3, elapsedTime := elapsedTime s + FRAME_INTERVAL\<rparr>
        in if elapsedTime s1 \<ge> ROUND_DURATION
           then shakeStopRound now (playerName s1) r s1
           else s1\<lparr>gameLoopId := True\<rparr>)"

text \<open>What can happen during a shake round, and a run of such steps in order.\<close>

datatype shake_step = Motion real DeviceMotionEvent | Frame int | StopClick int

fun shakeStep :: "shake_step \<Rightarrow> ShakeRound \<Rightarrow> ShakeRound" where
  "shakeStep (Motion perfNow ev) s = onDeviceMotion perfNow ev s"
| "shakeStep (Frame now) s = shakeGameLoop now s"
| "shakeStep (StopClick now) s = shakeStopClick now s"

definition shakeRun :: "shake_step list \<Rightarrow> ShakeRound \<Rightarrow> ShakeRound" where
  "shakeRun steps s = foldl (\<lambda>s step. shakeStep step s) s steps"

section \<open>Page-load states and example inputs\<close>

text \<open>The page as loaded: the meters at zero, nothing logged, only the start button enabled.\<close>

definition ui0 :: UI where
  "ui0 = \<lparr>status = (''Ready.'', ''muted''), buttons = (True, False, False),
           meterBar = (\<lambda>m. 0), meterTxt = (\<lambda>m. 0), confetti = 0, debugLog = []\<rparr>"

text \<open>The module-level initialisers of the two modes, over a given \<open>localStorage\<close>.\<close>

definition laughInit :: "localStorage \<Rightarrow> LaughRound" where
  "laughInit st =
     \<lparr>isRoundRunning = False, elapsedTime = 0, playerName = [], storage = st, ui = ui0,
      audioGraph = False, gameLoopTimer = False, baselineRMS = 0, emaLaughProb = 0,
      laughProbSum = 0, frameCount = 0, loudPenalty = 0, streak = 0, streakBonus = 0\<rparr>"

definition shakeInit :: "localStorage \<Rightarrow> ShakeRound" where
  "shakeInit st =
     \<lparr>isRoundRunning = False, elapsedTime = 0, playerName = [], storage = st, ui = ui0,
      listening = False, gameLoopId = False, motionDataAvailable = False, lastTimestamp = 0,
      integratedAccEnergy = 0, integratedRotEnergy = 0, liveAcceleration = 0, liveRotation = 0\<rparr>"

text \<open>A motion event at time \<open>t\<close> (in ms) with linear acceleration \<open>(3, 4, 0)\<close> and no rotation.\<close>

definition exampleMotion :: "real \<Rightarrow> DeviceMotionEvent" where
  "exampleMotion t =
     \<lparr>timeStamp = t, acceleration = Some (Some 3, Some 4, Some 0),
      accelerationIncludingGravity = None, rotationRate = None\<rparr>"

text \<open>A shake round of player Ann that has received one motion event, at 1000 ms.\<close>

definition shakeAfterFirstEvent :: ShakeRound where
  "shakeAfterFirstEvent = onDeviceMotion 0 (exampleMotion 1000) (shakeBegin ''Ann'' (shakeInit Map.empty))"

text \<open>A shake round of player Ann about to run its last frame, with energies 10 and 5.\<close>

definition shakeLastFrame :: ShakeRound where
  "shakeLastFrame =
     (shakeBegin ''Ann'' (shakeInit Map.empty))
       \<lparr>elapsedTime := 9990, integratedAccEnergy := 10, integratedRotEnergy := 5\<rparr>"

text \<open>
  Example ticks: a silent analyser frame with laughter recognised at probability 1, the same with
  probability 1/2, and a tick whose classifier call fails. The example round is twelve ticks of
  the first kind, sixteen of the second and twelve of the third, started for player Ann with
  baseline 0.01.
\<close>

definition quietFrame :: "real list" where
  "quietFrame = [0, 0]"

definition laughingTick :: TickInput where
  "laughingTick = \<lparr>rmsData = quietFrame,
      classified = Categories [\<lparr>categoryName = ''Laughter'', catScore = 1\<rparr>], dateNow = 5\<rparr>"

definition halfTick :: TickInput where
  "halfTick = \<lparr>rmsData = quietFrame,
      classified = Categories [\<lparr>categoryName = ''Giggle'', catScore = 1 / 2\<rparr>], dateNow = 6\<rparr>"

definition failedTick :: TickInput where
  "failedTick = \<lparr>rmsData = quietFrame, classified = Raises ''model unavailable'', dateNow = 7\<rparr>"

definition exampleRound :: "TickInput list" where
  "exampleRound = replicate 12 laughingTick @ replicate 16 halfTick @ replicate 12 failedTick"

definition laughStart :: LaughRound where
  "laughStart = laughBegin ''Ann'' (1 / 100) (laughInit Map.empty)"

text \<open>A stored entry of player Bob with the given score.\<close>

definition bob :: "int \<Rightarrow> ScoreEntry" where
  "bob sc = \<lparr>name = ''Bob'', score = sc, ts = 1\<rparr>"

text \<open>A storage whose laugh leaderboard is full.\<close>

definition fullStorage :: localStorage where
  "fullStorage = [LAUGH_SCORE_KEY \<mapsto> Parsed (map bob [90, 80, 70, 60, 50, 40, 30, 20, 10, 5])]"

section \<open>Properties of the shared utilities\<close>

lemma Math_round_nearest:
  "real_of_int (Math_round x) - 1 / 2 \<le> x \<and> x < real_of_int (Math_round x) + 1 / 2"
  unfolding Math_round_def by linarith

lemma Math_round_mono: "x \<le> y \<Longrightarrow> Math_round x \<le> Math_round y"
  unfolding Math_round_def by (simp add: floor_mono)

subsection \<open>escapeHtml\<close>

lemma concat_escape_no_raw:
  "set (concat (map escapeChar s)) \<inter> {CHR ''<'', CHR ''>'', CHR 0x22, CHR 0x27} = {}"
  by (induction s) (auto simp: escapeChar_def)

lemma amp_step:
  assumes IH: "\<And>pre suf. out = pre @ CHR ''&'' # suf \<Longrightarrow> \<exists>e\<in>set entity_tails. prefix e suf"
    and eq: "escapeChar c @ out = pre @ CHR ''&'' # suf"
  shows "\<exists>e\<in>set entity_tails. prefix e suf"
  using eq IH
  by (auto simp: escapeChar_def entity_tails_def Cons_eq_append_conv split: if_splits)

lemma concat_escape_amp:
  "concat (map escapeChar s) = pre @ CHR ''&'' # suf \<Longrightarrow> \<exists>e\<in>set entity_tails. prefix e suf"
proof (induction s arbitrary: pre suf)
  case Nil
  then show ?case by simp
next
  case (Cons c s)
  from Cons.prems have "escapeChar c @ concat (map escapeChar s) = pre @ CHR ''&'' # suf"
    by simp
  then show ?case using Cons.IH by (rule amp_step[rotated])
qed

text \<open>
  C10. For every argument of \<open>escapeHtml\<close> (a string, or a missing value), the output holds none
  of the characters \<open><\<close>, \<open>>\<close>, double quote and single quote, and wherever the output holds an
  ampersand, what follows it starts with one of \<open>amp;\<close>, \<open>lt;\<close>, \<open>gt;\<close>, \<open>quot;\<close>, \<open>#39;\<close>: every
  ampersand is the first character of one of the five entities.
\<close>

theorem escapeHtml_safe:
  "set (escapeHtml str) \<inter> {CHR ''<'', CHR ''>'', CHR 0x22, CHR 0x27} = {} \<and>
   (\<forall>pre suf. escapeHtml str = pre @ CHR ''&'' # suf \<longrightarrow> (\<exists>e\<in>set entity_tails. prefix e suf))"
  unfolding escapeHtml_def
  by (intro conjI allI impI concat_escape_no_raw) (erule concat_escape_amp)

theorem escapeHtml_safe_witness:
  "escapeHtml (Some ''a<b&c'') = ''a&lt;b'' @ CHR ''&'' # ''amp;c'' \<and>
   (\<exists>e\<in>set entity_tails. prefix e ''amp;c'')"
proof -
  have eq: "escapeHtml (Some ''a<b&c'') = ''a&lt;b'' @ CHR ''&'' # ''amp;c''"
    by (simp add: escapeHtml_def escapeChar_def)
  have ex: "\<exists>e\<in>set entity_tails. prefix e ''amp;c''"
    by (rule escapeHtml_safe [of "Some ''a<b&c''", THEN conjunct2, THEN spec, THEN spec, THEN mp, OF eq])
  from eq ex show ?thesis by (rule conjI)
qed

subsection \<open>saveScore\<close>

lemma loadScores_saveScore_same:
  "score_key m = score_key mode \<Longrightarrow>
   loadScores (fst (saveScore st now mode nm sc)) m =
     take 10 (sort_key (\<lambda>e. - score e) (loadScores st mode @ [\<lparr>name = nm, score = sc, ts = now\<rparr>]))"
  by (simp add: saveScore_def Let_def loadScores_def [of "_(_ \<mapsto> _)"])

lemma loadScores_saveScore_other:
  "score_key m \<noteq> score_key mode \<Longrightarrow>
   loadScores (fst (saveScore st now mode nm sc)) m = loadScores st m"
  by (simp add: saveScore_def Let_def loadScores_def)

lemma leaderboard_inv_top10:
  "leaderboard_inv (take 10 (sort_key (\<lambda>e. - score e) xs))"
proof -
  have "sorted (map (\<lambda>e. - score e) (sort_key (\<lambda>e. - score e) xs))"
    by (rule sorted_sort_key)
  then have "sorted_wrt (\<lambda>a b. score a \<ge> score b) (sort_key (\<lambda>e. - score e) xs)"
    by (simp add: sorted_wrt_map)
  then have "sorted_wrt (\<lambda>a b. score a \<ge> score b) (take 10 (sort_key (\<lambda>e. - score e) xs))"
    by (rule sorted_wrt_take)
  then show ?thesis by (simp add: leaderboard_inv_def)
qed

text \<open>
  C2, as the code has it. \<open>saveScore\<close> reports a new personal best exactly when the score is
  strictly greater than the score of the first entry of the mode's leaderboard as it was before
  the write; when that leaderboard was empty the score is compared with 0, so the report is
  true exactly for a positive score. A score equal to the stored top score is not reported.
\<close>

theorem saveScore_reports_best:
  "snd (saveScore st now mode nm sc) \<longleftrightarrow>
     (case loadScores st mode of [] \<Rightarrow> 0 < sc | e # es \<Rightarrow> score e < sc)"
  by (simp add: saveScore_def Let_def split: list.splits)

text \<open>
  The claim that an empty leaderboard reports a personal best for every score fails at
  score 0: nothing is stored for the laugh mode, and \<open>saveScore\<close> reports \<open>False\<close>.
\<close>

theorem saveScore_empty_zero_counterexample:
  "loadScores Map.empty ''laugh'' = [] \<and> \<not> snd (saveScore Map.empty 1700000000000 ''laugh'' ''Ann'' 0)"
  by (simp add: saveScore_def loadScores_def Let_def)

text \<open>
  C3. A \<open>saveScore\<close> write keeps the leaderboard invariant for every mode: if the stored
  leaderboard of a mode has at most ten entries in non-increasing order of score before the
  write, it has so after the write (the written mode's leaderboard is cut to the first ten
  entries of the sorted array, whatever was stored before).
\<close>

theorem saveScore_keeps_invariant:
  "leaderboard_inv (loadScores st m) \<Longrightarrow>
   leaderboard_inv (loadScores (fst (saveScore st now mode nm sc)) m)"
proof (cases "score_key m = score_key mode")
  case True
  then show ?thesis by (simp add: loadScores_saveScore_same leaderboard_inv_top10)
next
  case False
  assume "leaderboard_inv (loadScores st m)"
  with False show ?thesis by (simp add: loadScores_saveScore_other)
qed

theorem saveScore_keeps_invariant_witness:
  "leaderboard_inv (loadScores fullStorage ''laugh'') \<and>
   leaderboard_inv (loadScores (fst (saveScore fullStorage 2 ''laugh'' ''Ann'' 55)) ''laugh'')"
proof -
  have h: "leaderboard_inv (loadScores fullStorage ''laugh'')"
    by (simp add: leaderboard_inv_def loadScores_def fullStorage_def score_key_def bob_def)
  from h saveScore_keeps_invariant [OF h] show ?thesis by (rule conjI)
qed

section \<open>Properties of the shake mode\<close>

subsection \<open>The delta-time of a motion event\<close>

lemma motion_dt_pos: "0 < motion_dt l n"
  by (simp add: motion_dt_def Let_def)

lemma motion_dt_stale:
  "l \<noteq> 0 \<Longrightarrow> (n - l) / 1000 \<le> 0 \<or> (n - l) / 1000 > 25 / 100 \<Longrightarrow> motion_dt l n = 16 / 1000"
  by (auto simp: motion_dt_def Let_def)

text \<open>
  C1, as the code has it. When a motion event follows an earlier one and the delta-time computed
  from the two timestamps is at most 0 or more than 0.25 seconds, the handler integrates both
  energies with the fixed step 0.016 seconds (the constant of the code, which is not 1/60).
\<close>

theorem onDeviceMotion_stale_dt:
  assumes "lastTimestamp s \<noteq> 0"
    and "now = (if timeStamp ev \<noteq> 0 then timeStamp ev else perfNow)"
    and "(now - lastTimestamp s) / 1000 \<le> 0 \<or> (now - lastTimestamp s) / 1000 > 25 / 100"
  shows "motion_dt (lastTimestamp s) now = 16 / 1000 \<and>
         integratedAccEnergy (onDeviceMotion perfNow ev s) =
           integratedAccEnergy s + (accMagnitude ev * accMagnitude ev) * (16 / 1000) \<and>
         integratedRotEnergy (onDeviceMotion perfNow ev s) =
           integratedRotEnergy s + (rotMagnitude ev * (pi / 180) * (rotMagnitude ev * (pi / 180))) * (16 / 1000)"
  using assms motion_dt_stale[of "lastTimestamp s" now]
  by (simp add: onDeviceMotion_def Let_def)

lemma shakeAfterFirstEvent_fields:
  "lastTimestamp shakeAfterFirstEvent = 1000"
  "integratedAccEnergy shakeAfterFirstEvent = 4 / 10"
  "integratedRotEnergy shakeAfterFirstEvent = 0"
  "isRoundRunning shakeAfterFirstEvent"
  by (simp_all add: shakeAfterFirstEvent_def onDeviceMotion_def exampleMotion_def Let_def shakeBegin_def
      shakeInit_def cleanupMotion_def motion_dt_def accMagnitude_def rotMagnitude_def Math_hypot_def num_def)

lemma exampleMotion_acc: "accMagnitude (exampleMotion t) * accMagnitude (exampleMotion t) = 25"
  by (simp add: exampleMotion_def accMagnitude_def Math_hypot_def num_def)

theorem onDeviceMotion_stale_dt_witness:
  "lastTimestamp shakeAfterFirstEvent \<noteq> 0 \<and>
   (3000 - lastTimestamp shakeAfterFirstEvent) / 1000 > 25 / 100 \<and>
   integratedAccEnergy (onDeviceMotion 0 (exampleMotion 3000) shakeAfterFirstEvent) = 4 / 10 + 25 * (16 / 1000)"
proof -
  have h1: "lastTimestamp shakeAfterFirstEvent \<noteq> 0"
    by (simp add: shakeAfterFirstEvent_fields)
  have h2: "(3000::real) = (if timeStamp (exampleMotion 3000) \<noteq> 0 then timeStamp (exampleMotion 3000) else 0)"
    by (simp add: exampleMotion_def)
  have h3: "(3000 - lastTimestamp shakeAfterFirstEvent) / 1000 > 25 / 100"
    by (simp add: shakeAfterFirstEvent_fields)
  from h3 have h3': "(3000 - lastTimestamp shakeAfterFirstEvent) / 1000 \<le> 0 \<or>
     (3000 - lastTimestamp shakeAfterFirstEvent) / 1000 > 25 / 100" by (rule disjI2)
  from onDeviceMotion_stale_dt [OF h1 h2 h3'] h1 h3 show ?thesis
    by (simp add: shakeAfterFirstEvent_fields exampleMotion_acc)
qed

text \<open>
  The claim with the step 1/60 fails: after an event at 1000 ms, an event at 3000 ms (a gap of
  2 seconds) is integrated with a step that is not 1/60, and the acceleration energy does not
  grow by the squared magnitude times 1/60.
\<close>

theorem implausible_gap_counterexample:
  "(3000 - lastTimestamp shakeAfterFirstEvent) / 1000 = 2 \<and>
   motion_dt (lastTimestamp shakeAfterFirstEvent) 3000 \<noteq> 1 / 60 \<and>
   integratedAccEnergy (onDeviceMotion 0 (exampleMotion 3000) shakeAfterFirstEvent) \<noteq>
     integratedAccEnergy shakeAfterFirstEvent +
       (accMagnitude (exampleMotion 3000) * accMagnitude (exampleMotion 3000)) * (1 / 60)"
  by (simp add: shakeAfterFirstEvent_fields exampleMotion_acc onDeviceMotion_def Let_def motion_dt_def
      exampleMotion_def[of 3000, THEN arg_cong[of _ _ timeStamp], simplified])

subsection \<open>The score of a frame\<close>

lemma shakeStopRound_energy:
  "integratedAccEnergy (shakeStopRound now nm sc s) = integratedAccEnergy s \<and>
   integratedRotEnergy (shakeStopRound now nm sc s) = integratedRotEnergy s"
  by (simp add: shakeStopRound_def cleanupMotion_def Let_def split: prod.splits)

lemma shakeGameLoop_meter:
  "isRoundRunning s \<Longrightarrow> meterTxt (ui (shakeGameLoop now s)) ''shake'' = real_of_int (shakeRank s)"
  by (simp add: shakeGameLoop_def shakeStopRound_def cleanupMotion_def Let_def updateMeter_def
      setStatus_def setButtonStates_def triggerConfetti_def split: prod.splits)

lemma shakeGameLoop_final:
  "isRoundRunning s \<Longrightarrow> elapsedTime s + FRAME_INTERVAL \<ge> ROUND_DURATION \<Longrightarrow>
   storage (shakeGameLoop now s) = fst (saveScore (storage s) now ''shake'' (playerName s) (shakeRank s))"
  by (simp add: shakeGameLoop_def shakeStopRound_def cleanupMotion_def Let_def split: prod.splits)

text \<open>
  C5. A frame of a running round shows the shake score
  \<open>round(6 * integratedAccEnergy + 2 * integratedRotEnergy)\<close>; the frame that ends the round
  persists that score; with energies 10 and 5 the score is 70.
\<close>

theorem shake_frame_score:
  "isRoundRunning s \<Longrightarrow>
     meterTxt (ui (shakeGameLoop now s)) ''shake'' =
       real_of_int (Math_round (6 * integratedAccEnergy s + 2 * integratedRotEnergy s)) \<and>
     (ROUND_DURATION \<le> elapsedTime s + FRAME_INTERVAL \<longrightarrow>
        storage (shakeGameLoop now s) =
          fst (saveScore (storage s) now ''shake'' (playerName s)
                (Math_round (6 * integratedAccEnergy s + 2 * integratedRotEnergy s)))) \<and>
     (integratedAccEnergy s = 10 \<and> integratedRotEnergy s = 5 \<longrightarrow>
        meterTxt (ui (shakeGameLoop now s)) ''shake'' = 70)"
proof -
  assume run: "isRoundRunning s"
  have ex: "Math_round 70 = 70" by (simp add: Math_round_def)
  from run show ?thesis
    by (auto simp: shakeGameLoop_meter shakeGameLoop_final shakeRank_def ex)
qed

theorem shake_frame_score_witness:
  "isRoundRunning shakeLastFrame \<and>
   ROUND_DURATION \<le> elapsedTime shakeLastFrame + FRAME_INTERVAL \<and>
   integratedAccEnergy shakeLastFrame = 10 \<and> integratedRotEnergy shakeLastFrame = 5 \<and>
   meterTxt (ui (shakeGameLoop 7 shakeLastFrame)) ''shake'' = 70 \<and>
   loadScores (storage (shakeGameLoop 7 shakeLastFrame)) ''shake'' = [\<lparr>name = ''Ann'', score = 70, ts = 7\<rparr>]"
proof -
  have h: "isRoundRunning shakeLastFrame"
    by (simp add: shakeLastFrame_def shakeBegin_def)
  have f: "ROUND_DURATION \<le> elapsedTime shakeLastFrame + FRAME_INTERVAL"
    "integratedAccEnergy shakeLastFrame = 10" "integratedRotEnergy shakeLastFrame = 5"
    "storage shakeLastFrame = Map.empty" "playerName shakeLastFrame = ''Ann''"
    by (simp_all add: shakeLastFrame_def shakeBegin_def ROUND_DURATION_def FRAME_INTERVAL_def
        shakeInit_def cleanupMotion_def)
  have r: "Math_round 70 = 70" by (simp add: Math_round_def)
  from shake_frame_score [OF h, of 7] h f show ?thesis
    by (simp add: r saveScore_def loadScores_def Let_def score_key_def)
qed

subsection \<open>The score never decreases\<close>

lemma onDeviceMotion_acc_mono: "integratedAccEnergy s \<le> integratedAccEnergy (onDeviceMotion p ev s)"
  using motion_dt_pos[of "lastTimestamp s"] by (simp add: onDeviceMotion_def Let_def less_imp_le)

lemma onDeviceMotion_rot_mono: "integratedRotEnergy s \<le> integratedRotEnergy (onDeviceMotion p ev s)"
  using motion_dt_pos[of "lastTimestamp s"] by (simp add: onDeviceMotion_def Let_def less_imp_le)

lemma shakeGameLoop_energy:
  "integratedAccEnergy (shakeGameLoop now s) = integratedAccEnergy s \<and>
   integratedRotEnergy (shakeGameLoop now s) = integratedRotEnergy s"
  by (simp add: shakeGameLoop_def shakeStopRound_energy Let_def)

lemma shakeStep_mono:
  "integratedAccEnergy s \<le> integratedAccEnergy (shakeStep step s) \<and>
   integratedRotEnergy s \<le> integratedRotEnergy (shakeStep step s)"
  by (cases step)
     (simp_all add: onDeviceMotion_acc_mono onDeviceMotion_rot_mono shakeGameLoop_energy
        shakeStopClick_def shakeStopRound_energy)

lemma shakeRun_mono:
  "integratedAccEnergy s \<le> integratedAccEnergy (shakeRun steps s) \<and>
   integratedRotEnergy s \<le> integratedRotEnergy (shakeRun steps s)"
proof (induction steps arbitrary: s)
  case Nil
  then show ?case by (simp add: shakeRun_def)
next
  case (Cons step steps)
  have run: "shakeRun (step # steps) s = shakeRun steps (shakeStep step s)"
    by (simp add: shakeRun_def)
  from shakeStep_mono[of s step] Cons.IH[of "shakeStep step s"] show ?case
    unfolding run by linarith
qed

text \<open>
  C8. The delta-time that an event integrates with is always positive, and over every sequence
  of motion events, frames and stop clicks neither energy accumulator decreases, so the score
  that a frame computes from a later state is at least the score that a frame computes from an
  earlier state.
\<close>

theorem shake_score_monotone:
  "0 < motion_dt lastTs now \<and>
   integratedAccEnergy s \<le> integratedAccEnergy (shakeRun steps s) \<and>
   integratedRotEnergy s \<le> integratedRotEnergy (shakeRun steps s) \<and>
   shakeRank s \<le> shakeRank (shakeRun steps s)"
proof -
  note m = shakeRun_mono[of s steps]
  have "6 * integratedAccEnergy s + 2 * integratedRotEnergy s
        \<le> 6 * integratedAccEnergy (shakeRun steps s) + 2 * integratedRotEnergy (shakeRun steps s)"
    using m by linarith
  then have "shakeRank s \<le> shakeRank (shakeRun steps s)"
    unfolding shakeRank_def by (rule Math_round_mono)
  with m motion_dt_pos [of lastTs now] show ?thesis by simp
qed

subsection \<open>Stopping a shake round\<close>

lemma shakeStopRound_idem:
  "shakeStopRound now2 nm2 sc2 (shakeStopRound now1 nm1 sc1 s) = shakeStopRound now1 nm1 sc1 s"
  by (simp add: shakeStopRound_def cleanupMotion_def Let_def split: prod.splits)

lemma shakeStopRound_not_running: "\<not> isRoundRunning (shakeStopRound now1 nm1 sc1 s)"
  by (simp add: shakeStopRound_def cleanupMotion_def Let_def split: prod.splits)

lemma shakeStopRound_storage:
  "isRoundRunning s \<Longrightarrow> storage (shakeStopRound now nm sc s) = fst (saveScore (storage s) now ''shake'' nm sc)"
  by (simp add: shakeStopRound_def cleanupMotion_def Let_def split: prod.splits)

section \<open>Properties of the laugh mode\<close>

subsection \<open>Calibration\<close>

lemma calibrationLoop_result:
  "\<exists>(t, d)\<in>set obs. E \<le> t \<Longrightarrow>
   calibrationLoop E obs a c =
     Some (a + sum_list (map (\<lambda>(t, d). rms d) (takeWhile (\<lambda>(t, d). t < E) obs)),
           c + length (takeWhile (\<lambda>(t, d). t < E) obs))"
proof (induction obs arbitrary: a c)
  case Nil
  then show ?case by simp
next
  case (Cons ob obs)
  obtain t d where ob: "ob = (t, d)" by (cases ob)
  show ?case
  proof (cases "t < E")
    case True
    with Cons.prems ob have "\<exists>(t, d)\<in>set obs. E \<le> t" by auto
    from Cons.IH[OF this] True ob show ?thesis by simp
  next
    case False
    with ob show ?thesis by simp
  qed
qed

text \<open>
  C6. When the calibration loop ends (some clock reading reaches the deadline), the baseline is
  the arithmetic mean of the RMS samples collected before the deadline if there is at least one,
  and exactly 0.01 if there is none.
\<close>

theorem calibration_baseline:
  "\<exists>(t, calibData)\<in>set obs. startTime + 2000 \<le> t \<Longrightarrow>
   calibrate startTime obs =
     Some (if calibrationSamples startTime obs = [] then 1 / 100
           else sum_list (calibrationSamples startTime obs) / real (length (calibrationSamples startTime obs)))"
  by (simp add: calibrate_def calibrationSamples_def calibrationLoop_result)

theorem calibration_baseline_witness:
  "(\<exists>(t, calibData)\<in>set [(100, [1, 1]), (150, [0, 0]), (2101, [])]. (100::real) + 2000 \<le> t) \<and>
   calibrationSamples 100 [(100, [1, 1]), (150, [0, 0]), (2101, [])] = [1, 0] \<and>
   calibrate 100 [(100, [1, 1]), (150, [0, 0]), (2101, [])] = Some (1 / 2) \<and>
   (\<exists>(t, calibData)\<in>set [(2100, [0, 0])]. (100::real) + 2000 \<le> t) \<and>
   calibrationSamples 100 [(2100, [0, 0])] = [] \<and>
   calibrate 100 [(2100, [0, 0])] = Some (1 / 100)"
proof -
  have h1: "\<exists>(t, calibData)\<in>set [(100, [1, 1]), (150, [0, 0]), (2101, [])]. (100::real) + 2000 \<le> t"
    by simp
  have h2: "\<exists>(t, calibData)\<in>set [(2100, [0, 0])]. (100::real) + 2000 \<le> t"
    by simp
  have s1: "calibrationSamples 100 [(100, [1, 1]), (150, [0, 0]), (2101, [])] = [1, 0]"
    by (simp add: calibrationSamples_def rms_def)
  have s2: "calibrationSamples 100 [(2100, [0, 0])] = []"
    by (simp add: calibrationSamples_def)
  from calibration_baseline [OF h1] calibration_baseline [OF h2] h1 h2 s1 s2
  show ?thesis by simp
qed

subsection \<open>Stopping a laugh round\<close>

lemma laughProb_Raises: "laughProb (Raises msg) = 0"
  by (simp add: laughProb_def clamp_def)

lemma laughStopRound_fields:
  "laughProbSum (laughStopRound now nm sc s) = laughProbSum s"
  "frameCount (laughStopRound now nm sc s) = frameCount s"
  "loudPenalty (laughStopRound now nm sc s) = loudPenalty s"
  "streakBonus (laughStopRound now nm sc s) = streakBonus s"
  "debugLog (ui (laughStopRound now nm sc s)) = debugLog (ui s)"
  "meterTxt (ui (laughStopRound now nm sc s)) = meterTxt (ui s)"
  "\<not> isRoundRunning (laughStopRound now nm sc s)"
  "elapsedTime (laughStopRound now nm sc s) = elapsedTime s"
  "playerName (laughStopRound now nm sc s) = playerName s"
  "baselineRMS (laughStopRound now nm sc s) = baselineRMS s"
  by (simp_all add: laughStopRound_def cleanupAudio_def Let_def setStatus_def setButtonStates_def
      triggerConfetti_def split: prod.splits)

lemma laughStopRound_storage:
  "isRoundRunning s \<Longrightarrow>
   storage (laughStopRound now nm sc s) = fst (saveScore (storage s) now ''laugh'' nm sc)"
  by (simp add: laughStopRound_def cleanupAudio_def Let_def split: prod.splits)

lemma laughStopRound_idem:
  "laughStopRound now2 nm2 sc2 (laughStopRound now1 nm1 sc1 s) = laughStopRound now1 nm1 sc1 s"
  using laughStopRound_fields(7)[of now1 nm1 sc1 s] by (simp add: laughStopRound_def[of now2])

lemma laughGameLoop_stopped: "\<not> isRoundRunning s \<Longrightarrow> laughGameLoop inp s = s"
  by (simp add: laughGameLoop_def)

subsection \<open>One tick, field by field\<close>

lemma ui_fields:
  "debugLog (updateMeter n p t u) = debugLog u"
  "debugLog (logDebug m u) = debugLog u @ [m]"
  "meterTxt (updateMeter n p t u) = (meterTxt u)(n := t)"
  "meterTxt (logDebug m u) = meterTxt u"
  by (simp_all add: updateMeter_def logDebug_def)

lemma tickLoudness_fields:
  "isRoundRunning (tickLoudness d s) = isRoundRunning s"
  "elapsedTime (tickLoudness d s) = elapsedTime s"
  "playerName (tickLoudness d s) = playerName s"
  "storage (tickLoudness d s) = storage s"
  "ui (tickLoudness d s) = ui s"
  "laughProbSum (tickLoudness d s) = laughProbSum s"
  "frameCount (tickLoudness d s) = frameCount s"
  "streak (tickLoudness d s) = streak s"
  "streakBonus (tickLoudness d s) = streakBonus s"
  "baselineRMS (tickLoudness d s) = baselineRMS s"
  "loudPenalty (tickLoudness d s) = penaltyUpdate (baselineRMS s) (rms d) (loudPenalty s)"
  by (simp_all add: tickLoudness_def Let_def)

lemma tickClassify_fields:
  "isRoundRunning (tickClassify r s) = isRoundRunning s"
  "elapsedTime (tickClassify r s) = elapsedTime s"
  "playerName (tickClassify r s) = playerName s"
  "storage (tickClassify r s) = storage s"
  "laughProbSum (tickClassify r s) = laughProbSum s"
  "frameCount (tickClassify r s) = frameCount s"
  "loudPenalty (tickClassify r s) = loudPenalty s"
  "streak (tickClassify r s) = streak s"
  "streakBonus (tickClassify r s) = streakBonus s"
  "meterTxt (ui (tickClassify r s)) = meterTxt (ui s)"
  "baselineRMS (tickClassify r s) = baselineRMS s"
  "debugLog (ui (tickClassify r s)) =
     debugLog (ui s) @ (case r of Raises msg \<Rightarrow> [''Classification error: '' @ msg] | Categories cs \<Rightarrow> [])"
  by (simp_all add: tickClassify_def ui_fields split: classify_result.splits)

lemma tickStreak_fields:
  "isRoundRunning (tickStreak p s) = isRoundRunning s"
  "elapsedTime (tickStreak p s) = elapsedTime s"
  "playerName (tickStreak p s) = playerName s"
  "storage (tickStreak p s) = storage s"
  "ui (tickStreak p s) = ui s"
  "laughProbSum (tickStreak p s) = laughProbSum s"
  "frameCount (tickStreak p s) = frameCount s"
  "loudPenalty (tickStreak p s) = loudPenalty s"
  "baselineRMS (tickStreak p s) = baselineRMS s"
  "(streak (tickStreak p s), streakBonus (tickStreak p s)) = streakUpdate p (streak s, streakBonus s)"
  by (simp_all add: tickStreak_def split: prod.splits)

lemma tickMean_fields:
  "isRoundRunning (tickMean p s) = isRoundRunning s"
  "elapsedTime (tickMean p s) = elapsedTime s"
  "playerName (tickMean p s) = playerName s"
  "storage (tickMean p s) = storage s"
  "laughProbSum (tickMean p s) = laughProbSum s + p"
  "frameCount (tickMean p s) = Suc (frameCount s)"
  "loudPenalty (tickMean p s) = loudPenalty s"
  "streak (tickMean p s) = streak s"
  "streakBonus (tickMean p s) = streakBonus s"
  "debugLog (ui (tickMean p s)) = debugLog (ui s)"
  "baselineRMS (tickMean p s) = baselineRMS s"
  by (simp_all add: tickMean_def Let_def ui_fields)

lemmas tick_stage_fields = tickLoudness_fields tickClassify_fields tickStreak_fields tickMean_fields

lemma tick_sum:
  "isRoundRunning s \<Longrightarrow> laughProbSum (laughGameLoop inp s) = laughProbSum s + laughProb (classified inp)"
  by (simp add: laughGameLoop_def Let_def laughStopRound_fields tick_stage_fields)

lemma tick_count:
  "isRoundRunning s \<Longrightarrow> frameCount (laughGameLoop inp s) = Suc (frameCount s)"
  by (simp add: laughGameLoop_def Let_def laughStopRound_fields tick_stage_fields)

lemma tick_elapsed:
  "isRoundRunning s \<Longrightarrow> elapsedTime (laughGameLoop inp s) = elapsedTime s + TICK_INTERVAL"
  by (simp add: laughGameLoop_def Let_def laughStopRound_fields tick_stage_fields)

lemma tick_name: "playerName (laughGameLoop inp s) = playerName s"
  by (simp add: laughGameLoop_def Let_def laughStopRound_fields tick_stage_fields)

lemma tick_running:
  "isRoundRunning s \<Longrightarrow>
   isRoundRunning (laughGameLoop inp s) \<longleftrightarrow> elapsedTime s + TICK_INTERVAL < ROUND_DURATION"
  by (simp add: laughGameLoop_def Let_def laughStopRound_fields tick_stage_fields not_le)

lemma tick_log:
  "isRoundRunning s \<Longrightarrow>
   debugLog (ui (laughGameLoop inp s)) =
     debugLog (ui s) @ (case classified inp of Raises msg \<Rightarrow> [''Classification error: '' @ msg] | Categories cs \<Rightarrow> [])"
  by (simp add: laughGameLoop_def Let_def laughStopRound_fields tick_stage_fields ui_fields)

lemma tick_storage_running:
  "isRoundRunning s \<Longrightarrow> elapsedTime s + TICK_INTERVAL < ROUND_DURATION \<Longrightarrow>
   storage (laughGameLoop inp s) = storage s"
  by (simp add: laughGameLoop_def Let_def tick_stage_fields)


lemma tick_joy:
  "isRoundRunning s \<Longrightarrow>
   meterTxt (ui (laughGameLoop inp s)) ''joy'' =
     real_of_int (spec_laugh_score ((laughProbSum s + laughProb (classified inp)) / real (Suc (frameCount s)))
        (loudPenalty (laughGameLoop inp s)) (streakBonus (laughGameLoop inp s)))"
  by (simp add: laughGameLoop_def Let_def laughStopRound_fields tick_stage_fields ui_fields
      joyRank_def spec_laugh_score_def)

lemma tick_storage_final:
  "isRoundRunning s \<Longrightarrow> ROUND_DURATION \<le> elapsedTime s + TICK_INTERVAL \<Longrightarrow>
   storage (laughGameLoop inp s) =
     fst (saveScore (storage s) (dateNow inp) ''laugh'' (playerName s)
       (spec_laugh_score ((laughProbSum s + laughProb (classified inp)) / real (Suc (frameCount s)))
        (loudPenalty (laughGameLoop inp s)) (streakBonus (laughGameLoop inp s))))"
  by (simp add: laughGameLoop_def Let_def laughStopRound_fields laughStopRound_storage
      tick_stage_fields joyRank_def spec_laugh_score_def)

lemma laughTicks_snoc: "laughTicks (inps @ [inp]) s = laughGameLoop inp (laughTicks inps s)"
  by (simp add: laughTicks_def)

lemma laughTicks_invariant:
  "isRoundRunning s \<Longrightarrow> elapsedTime s + TICK_INTERVAL * real (length inps) < ROUND_DURATION \<Longrightarrow>
   isRoundRunning (laughTicks inps s) \<and>
   elapsedTime (laughTicks inps s) = elapsedTime s + TICK_INTERVAL * real (length inps) \<and>
   laughProbSum (laughTicks inps s) = laughProbSum s + sum_list (map (\<lambda>inp. laughProb (classified inp)) inps) \<and>
   frameCount (laughTicks inps s) = frameCount s + length inps \<and>
   playerName (laughTicks inps s) = playerName s \<and>
   storage (laughTicks inps s) = storage s"
proof (induction inps rule: rev_induct)
  case Nil
  then show ?case by (simp add: laughTicks_def)
next
  case (snoc inp inps)
  have pos: "0 < TICK_INTERVAL" by (simp add: TICK_INTERVAL_def)
  from snoc.prems(2) pos
  have before: "elapsedTime s + TICK_INTERVAL * real (length inps) < ROUND_DURATION"
    and step: "elapsedTime s + TICK_INTERVAL * real (length inps) + TICK_INTERVAL < ROUND_DURATION"
    by (simp_all add: algebra_simps)
  note IH = snoc.IH [OF snoc.prems(1) before]
  from IH have run: "isRoundRunning (laughTicks inps s)" by simp
  from IH step have next_ok: "elapsedTime (laughTicks inps s) + TICK_INTERVAL < ROUND_DURATION"
    by simp
  show ?case
    unfolding laughTicks_snoc
    using IH tick_running [OF run, of inp] next_ok tick_elapsed [OF run, of inp]
      tick_sum [OF run, of inp] tick_count [OF run, of inp] tick_name [of inp "laughTicks inps s"]
      tick_storage_running [OF run next_ok, of inp]
    by (simp add: algebra_simps)
qed

lemma tick_penalty:
  "isRoundRunning s \<Longrightarrow>
   loudPenalty (laughGameLoop inp s) = penaltyUpdate (baselineRMS s) (rms (rmsData inp)) (loudPenalty s)"
  by (simp add: laughGameLoop_def Let_def laughStopRound_fields tick_stage_fields)

lemma tick_streak:
  "isRoundRunning s \<Longrightarrow>
   (streak (laughGameLoop inp s), streakBonus (laughGameLoop inp s)) =
     streakUpdate (laughProb (classified inp)) (streak s, streakBonus s)"
proof -
  assume run: "isRoundRunning s"
  let ?s2 = "tickClassify (classified inp) (tickLoudness (rmsData inp) s)"
  let ?p = "laughProb (classified inp)"
  have a: "streak (laughGameLoop inp s) = streak (tickStreak ?p ?s2)"
    using run by (simp add: laughGameLoop_def Let_def laughStopRound_def cleanupAudio_def
        tick_stage_fields split: prod.splits)
  have b: "streakBonus (laughGameLoop inp s) = streakBonus (tickStreak ?p ?s2)"
    using run by (simp add: laughGameLoop_def Let_def laughStopRound_fields tick_stage_fields)
  have "(streak (tickStreak ?p ?s2), streakBonus (tickStreak ?p ?s2)) = streakUpdate ?p (streak ?s2, streakBonus ?s2)"
    by (rule tickStreak_fields)
  then show ?thesis unfolding a b by (simp add: tick_stage_fields)
qed

lemma tick_baseline: "baselineRMS (laughGameLoop inp s) = baselineRMS s"
  by (simp add: laughGameLoop_def Let_def laughStopRound_fields tick_stage_fields)

lemma laughTicks_accumulators:
  "isRoundRunning s \<Longrightarrow> elapsedTime s + TICK_INTERVAL * real (length inps) \<le> ROUND_DURATION \<Longrightarrow>
   laughProbSum (laughTicks inps s) = laughProbSum s + sum_list (map (\<lambda>inp. laughProb (classified inp)) inps) \<and>
   frameCount (laughTicks inps s) = frameCount s + length inps \<and>
   baselineRMS (laughTicks inps s) = baselineRMS s \<and>
   loudPenalty (laughTicks inps s) =
     foldl (\<lambda>pen inp. penaltyUpdate (baselineRMS s) (rms (rmsData inp)) pen) (loudPenalty s) inps \<and>
   (streak (laughTicks inps s), streakBonus (laughTicks inps s)) =
     foldl (\<lambda>kb inp. streakUpdate (laughProb (classified inp)) kb) (streak s, streakBonus s) inps"
proof (induction inps rule: rev_induct)
  case Nil
  then show ?case by (simp add: laughTicks_def)
next
  case (snoc inp inps)
  have pos: "0 < TICK_INTERVAL" by (simp add: TICK_INTERVAL_def)
  from snoc.prems(2) pos
  have before: "elapsedTime s + TICK_INTERVAL * real (length inps) < ROUND_DURATION"
    by (simp add: algebra_simps)
  note inv = laughTicks_invariant [OF snoc.prems(1) before]
  from before have "elapsedTime s + TICK_INTERVAL * real (length inps) \<le> ROUND_DURATION" by simp
  note IH = snoc.IH [OF snoc.prems(1) this]
  from inv have run: "isRoundRunning (laughTicks inps s)" by simp
  show ?case
    unfolding laughTicks_snoc
    using IH tick_sum [OF run, of inp] tick_count [OF run, of inp] tick_penalty [OF run, of inp]
      tick_streak [OF run, of inp] tick_baseline [of inp "laughTicks inps s"]
    by simp
qed

lemma laughBegin_fields:
  "isRoundRunning (laughBegin nm bl s)" "elapsedTime (laughBegin nm bl s) = 0"
  "playerName (laughBegin nm bl s) = nm" "storage (laughBegin nm bl s) = storage s"
  "laughProbSum (laughBegin nm bl s) = 0" "frameCount (laughBegin nm bl s) = 0"
  "loudPenalty (laughBegin nm bl s) = 0" "streak (laughBegin nm bl s) = 0"
  "streakBonus (laughBegin nm bl s) = 0" "baselineRMS (laughBegin nm bl s) = bl"
  by (simp_all add: laughBegin_def)

lemma laugh_score_run:
  assumes ne: "inps \<noteq> []" and len: "length inps \<le> 40"
  shows "meterTxt (ui (laughTicks inps (laughBegin nm bl s))) ''joy'' =
           real_of_int (spec_laugh_score
             (sum_list (map (\<lambda>inp. laughProb (classified inp)) inps) / real (length inps))
             (loudPenalty (laughTicks inps (laughBegin nm bl s)))
             (streakBonus (laughTicks inps (laughBegin nm bl s))))"
    and "length inps = 40 \<Longrightarrow>
         storage (laughTicks inps (laughBegin nm bl s)) =
           fst (saveScore (storage s) (dateNow (last inps)) ''laugh'' nm
             (spec_laugh_score
               (sum_list (map (\<lambda>inp. laughProb (classified inp)) inps) / real (length inps))
               (loudPenalty (laughTicks inps (laughBegin nm bl s)))
               (streakBonus (laughTicks inps (laughBegin nm bl s)))))"
proof -
  let ?s0 = "laughBegin nm bl s"
  let ?pre = "butlast inps"
  let ?inp = "last inps"
  from ne have split: "inps = ?pre @ [?inp]" by simp
  from ne len have plen: "length ?pre \<le> 39" by simp
  then have "TICK_INTERVAL * real (length ?pre) \<le> 9750"
    by (simp add: TICK_INTERVAL_def)
  then have before: "elapsedTime ?s0 + TICK_INTERVAL * real (length ?pre) < ROUND_DURATION"
    by (simp add: laughBegin_fields ROUND_DURATION_def)
  note inv = laughTicks_invariant [OF laughBegin_fields(1) before]
  from before have "elapsedTime ?s0 + TICK_INTERVAL * real (length ?pre) \<le> ROUND_DURATION" by simp
  note acc = laughTicks_accumulators [OF laughBegin_fields(1) this]
  from inv have run: "isRoundRunning (laughTicks ?pre ?s0)" by simp
  have ticks: "laughTicks inps ?s0 = laughGameLoop ?inp (laughTicks ?pre ?s0)"
    using split laughTicks_snoc [of ?pre ?inp ?s0] by simp
  have sum: "sum_list (map (\<lambda>inp. laughProb (classified inp)) inps) =
      sum_list (map (\<lambda>inp. laughProb (classified inp)) ?pre) + laughProb (classified ?inp)"
    using arg_cong [OF split, of "\<lambda>xs. sum_list (map (\<lambda>inp. laughProb (classified inp)) xs)"] by simp
  have cnt: "length inps = Suc (length ?pre)" using ne by simp
  have mean: "(laughProbSum (laughTicks ?pre ?s0) + laughProb (classified ?inp)) /
               real (Suc (frameCount (laughTicks ?pre ?s0))) =
             sum_list (map (\<lambda>inp. laughProb (classified inp)) inps) / real (length inps)"
    using acc by (simp only: sum cnt laughBegin_fields) simp
  show "meterTxt (ui (laughTicks inps ?s0)) ''joy'' =
           real_of_int (spec_laugh_score
             (sum_list (map (\<lambda>inp. laughProb (classified inp)) inps) / real (length inps))
             (loudPenalty (laughTicks inps ?s0)) (streakBonus (laughTicks inps ?s0)))"
    using tick_joy [OF run, of ?inp] unfolding ticks mean .
  assume full: "length inps = 40"
  with ne have "length ?pre = 39" by simp
  with inv have "elapsedTime (laughTicks ?pre ?s0) + TICK_INTERVAL = 10000"
    by (simp add: laughBegin_fields TICK_INTERVAL_def)
  then have fin: "ROUND_DURATION \<le> elapsedTime (laughTicks ?pre ?s0) + TICK_INTERVAL"
    by (simp add: ROUND_DURATION_def)
  from inv have st: "storage (laughTicks ?pre ?s0) = storage s" "playerName (laughTicks ?pre ?s0) = nm"
    by (simp_all add: laughBegin_fields)
  show "storage (laughTicks inps ?s0) =
           fst (saveScore (storage s) (dateNow (last inps)) ''laugh'' nm
             (spec_laugh_score
               (sum_list (map (\<lambda>inp. laughProb (classified inp)) inps) / real (length inps))
               (loudPenalty (laughTicks inps ?s0)) (streakBonus (laughTicks inps ?s0))))"
    using tick_storage_final [OF run fin, of ?inp] unfolding ticks mean st .
qed

subsection \<open>The example round\<close>

lemma lexicon_examples: "isLaughterCategory ''Laughter''" "isLaughterCategory ''Giggle''"
  by code_simp+

lemma example_probs:
  "laughProb (classified laughingTick) = 1"
  "laughProb (classified halfTick) = 1 / 2"
  "laughProb (classified failedTick) = 0"
  by (simp_all add: laughingTick_def halfTick_def failedTick_def laughProb_def lexicon_examples clamp_def)

lemma example_rms:
  "rms (rmsData laughingTick) = 0" "rms (rmsData halfTick) = 0" "rms (rmsData failedTick) = 0"
  by (simp_all add: laughingTick_def halfTick_def failedTick_def quietFrame_def rms_def)

lemma foldl_replicate_fixed: "f a x = a \<Longrightarrow> foldl f a (replicate n x) = a"
  by (induction n) simp_all

lemma exampleRound_length: "length exampleRound = 40"
  by (simp add: exampleRound_def)

lemma exampleRound_sum: "sum_list (map (\<lambda>inp. laughProb (classified inp)) exampleRound) = 20"
  by (simp add: exampleRound_def example_probs sum_list_replicate)

lemma exampleRound_penalty:
  "foldl (\<lambda>pen inp. penaltyUpdate (1 / 100) (rms (rmsData inp)) pen) 0 exampleRound = 0"
  by (simp add: exampleRound_def example_rms penaltyUpdate_def foldl_replicate_fixed)

lemma streakUpdate_examples:
  "streakUpdate (laughProb (classified laughingTick)) (k, b) = (k + 1, if (k + 1) mod 4 = 0 then b + 1 else b)"
  "streakUpdate (laughProb (classified halfTick)) (k, b) = (0, b)"
  "streakUpdate (laughProb (classified failedTick)) (k, b) = (0, b)"
  by (simp_all add: example_probs streakUpdate_def)

lemma replicate_12: "replicate 12 x = [x, x, x, x, x, x, x, x, x, x, x, x]"
  by (simp add: numeral_eq_Suc)

lemma replicate_16: "replicate 16 x = x # replicate 15 x"
  by (simp add: numeral_eq_Suc)

lemma exampleRound_streak:
  "foldl (\<lambda>kb inp. streakUpdate (laughProb (classified inp)) kb) (0, 0) exampleRound = (0, 3)"
proof -
  let ?f = "\<lambda>kb inp. streakUpdate (laughProb (classified inp)) kb"
  have a: "foldl ?f (0, 0) (replicate 12 laughingTick) = (12, 3)"
    unfolding replicate_12 by (simp add: streakUpdate_examples)
  have b: "foldl ?f (12, 3) (replicate 16 halfTick) = (0, 3)"
    unfolding replicate_16 by (simp add: streakUpdate_examples foldl_replicate_fixed)
  have c: "foldl ?f (0, 3) (replicate 12 failedTick) = (0, 3)"
    by (simp add: streakUpdate_examples foldl_replicate_fixed)
  show ?thesis
    unfolding exampleRound_def foldl_append a b c ..
qed

subsection \<open>The score of a tick\<close>

text \<open>
  C4. In a round started by \<open>laughBegin\<close>, after each of its at most forty ticks the score shown
  on the joy meter is \<open>round(max(0, 100 * mean(p) - 15 * loudPenalty + 2 * streakBonus))\<close>, where
  \<open>mean(p)\<close> is the sum of the laughter probabilities of all ticks so far divided by their number,
  \<open>loudPenalty\<close> is the penalty accumulated over those ticks and \<open>streakBonus\<close> the bonus
  accumulated over them; the fortieth tick persists that score as the final one. With mean 0.5,
  penalty 0 and bonus 3 the formula gives 56.
\<close>

theorem laugh_score_formula:
  "inps \<noteq> [] \<Longrightarrow> length inps \<le> 40 \<Longrightarrow>
   meterTxt (ui (laughTicks inps (laughBegin nm bl s))) ''joy'' =
     real_of_int (spec_laugh_score
       (sum_list (map (\<lambda>inp. laughProb (classified inp)) inps) / real (length inps))
       (loudPenalty (laughTicks inps (laughBegin nm bl s)))
       (streakBonus (laughTicks inps (laughBegin nm bl s)))) \<and>
   (length inps = 40 \<longrightarrow>
      storage (laughTicks inps (laughBegin nm bl s)) =
        fst (saveScore (storage s) (dateNow (last inps)) ''laugh'' nm
          (spec_laugh_score
            (sum_list (map (\<lambda>inp. laughProb (classified inp)) inps) / real (length inps))
            (loudPenalty (laughTicks inps (laughBegin nm bl s)))
            (streakBonus (laughTicks inps (laughBegin nm bl s)))))) \<and>
   loudPenalty (laughTicks inps (laughBegin nm bl s)) =
     foldl (\<lambda>pen inp. penaltyUpdate bl (rms (rmsData inp)) pen) 0 inps \<and>
   (streak (laughTicks inps (laughBegin nm bl s)), streakBonus (laughTicks inps (laughBegin nm bl s))) =
     foldl (\<lambda>kb inp. streakUpdate (laughProb (classified inp)) kb) (0, 0) inps \<and>
   spec_laugh_score (1 / 2) 0 3 = 56"
proof -
  assume ne: "inps \<noteq> []" and len: "length inps \<le> 40"
  from len have "TICK_INTERVAL * real (length inps) \<le> 10000"
    by (simp add: TICK_INTERVAL_def)
  then have "elapsedTime (laughBegin nm bl s) + TICK_INTERVAL * real (length inps) \<le> ROUND_DURATION"
    by (simp add: laughBegin_fields ROUND_DURATION_def)
  note acc = laughTicks_accumulators [OF laughBegin_fields(1) this]
  have ex: "spec_laugh_score (1 / 2) 0 3 = 56"
    by (simp add: spec_laugh_score_def Math_round_def)
  from acc have pen: "loudPenalty (laughTicks inps (laughBegin nm bl s)) =
     foldl (\<lambda>pen inp. penaltyUpdate bl (rms (rmsData inp)) pen) 0 inps"
    by (simp add: laughBegin_fields)
  from acc have str: "(streak (laughTicks inps (laughBegin nm bl s)), streakBonus (laughTicks inps (laughBegin nm bl s))) =
     foldl (\<lambda>kb inp. streakUpdate (laughProb (classified inp)) kb) (0, 0) inps"
    by (simp add: laughBegin_fields)
  from laugh_score_run(1) [OF ne len] laugh_score_run(2) [OF ne len] pen str ex
  show ?thesis by (intro conjI impI)
qed

theorem laugh_score_formula_witness:
  "exampleRound \<noteq> [] \<and> length exampleRound \<le> 40 \<and> length exampleRound = 40 \<and>
   meterTxt (ui (laughTicks exampleRound (laughBegin ''Ann'' (1 / 100) (laughInit Map.empty)))) ''joy'' = 56 \<and>
   loadScores (storage (laughTicks exampleRound (laughBegin ''Ann'' (1 / 100) (laughInit Map.empty)))) ''laugh'' =
     [\<lparr>name = ''Ann'', score = 56, ts = 7\<rparr>]"
proof -
  have ne: "exampleRound \<noteq> []" by (simp add: exampleRound_def)
  have len: "length exampleRound \<le> 40" by (simp add: exampleRound_length)
  note T = laugh_score_formula [OF ne len, of "''Ann''" "1 / 100" "laughInit Map.empty"]
  have lastTick: "dateNow (last exampleRound) = 7"
    by (simp add: exampleRound_def failedTick_def)
  have st: "storage (laughInit Map.empty) = Map.empty" by (simp add: laughInit_def)
  have ex: "spec_laugh_score (1 / 2) 0 3 = 56" using T by simp
  from T have pen: "loudPenalty (laughTicks exampleRound (laughBegin ''Ann'' (1 / 100) (laughInit Map.empty))) = 0"
    by (simp only: exampleRound_penalty)
  from T have "(streak (laughTicks exampleRound (laughBegin ''Ann'' (1 / 100) (laughInit Map.empty))),
      streakBonus (laughTicks exampleRound (laughBegin ''Ann'' (1 / 100) (laughInit Map.empty)))) = (0, 3)"
    by (simp only: exampleRound_streak)
  then have bonus: "streakBonus (laughTicks exampleRound (laughBegin ''Ann'' (1 / 100) (laughInit Map.empty))) = 3"
    by simp
  have mean: "sum_list (map (\<lambda>inp. laughProb (classified inp)) exampleRound) / real (length exampleRound) = 1 / 2"
    by (simp add: exampleRound_sum exampleRound_length)
  from T have joy: "meterTxt (ui (laughTicks exampleRound (laughBegin ''Ann'' (1 / 100) (laughInit Map.empty)))) ''joy'' = 56"
    unfolding mean pen bonus ex by simp
  from T exampleRound_length
  have "storage (laughTicks exampleRound (laughBegin ''Ann'' (1 / 100) (laughInit Map.empty))) =
        fst (saveScore Map.empty 7 ''laugh'' ''Ann'' 56)"
    unfolding mean pen bonus ex lastTick st by simp
  then have stored: "loadScores (storage (laughTicks exampleRound (laughBegin ''Ann'' (1 / 100) (laughInit Map.empty)))) ''laugh'' =
     [\<lparr>name = ''Ann'', score = 56, ts = 7\<rparr>]"
    by (simp add: saveScore_def loadScores_def Let_def)
  from ne len exampleRound_length joy stored show ?thesis by (intro conjI)
qed

subsection \<open>A failing classifier call\<close>

text \<open>
  C7. In a tick of a running round whose classifier call raises an error, the laughter
  probability is 0, the running sum of probabilities is unchanged while the tick is counted, the
  error is appended to the debug log, and the round goes on: it is still running after the tick
  unless this tick reaches the round duration.
\<close>

theorem classifier_error_tick:
  "isRoundRunning s \<Longrightarrow> classified inp = Raises msg \<Longrightarrow>
   laughProb (classified inp) = 0 \<and>
   laughProbSum (laughGameLoop inp s) = laughProbSum s \<and>
   frameCount (laughGameLoop inp s) = Suc (frameCount s) \<and>
   debugLog (ui (laughGameLoop inp s)) = debugLog (ui s) @ [''Classification error: '' @ msg] \<and>
   (isRoundRunning (laughGameLoop inp s) \<longleftrightarrow> elapsedTime s + TICK_INTERVAL < ROUND_DURATION)"
proof -
  assume run: "isRoundRunning s" and err: "classified inp = Raises msg"
  have p: "laughProb (classified inp) = 0" unfolding err by (rule laughProb_Raises)
  from tick_sum [OF run, of inp] p have a: "laughProbSum (laughGameLoop inp s) = laughProbSum s"
    by simp
  from tick_log [OF run, of inp]
  have l: "debugLog (ui (laughGameLoop inp s)) = debugLog (ui s) @ [''Classification error: '' @ msg]"
    unfolding err by simp
  from p a tick_count [OF run, of inp] l tick_running [OF run, of inp] show ?thesis
    by (intro conjI)
qed

theorem classifier_error_tick_witness:
  "isRoundRunning laughStart \<and> classified failedTick = Raises ''model unavailable'' \<and>
   laughProbSum (laughGameLoop failedTick laughStart) = 0 \<and>
   frameCount (laughGameLoop failedTick laughStart) = 1 \<and>
   debugLog (ui (laughGameLoop failedTick laughStart)) = [''Classification error: model unavailable''] \<and>
   isRoundRunning (laughGameLoop failedTick laughStart)"
proof -
  have run: "isRoundRunning laughStart" by (simp add: laughStart_def laughBegin_fields)
  have err: "classified failedTick = Raises ''model unavailable''" by (simp add: failedTick_def)
  have f: "laughProbSum laughStart = 0" "frameCount laughStart = 0" "elapsedTime laughStart = 0"
    "debugLog (ui laughStart) = []"
    by (simp_all add: laughStart_def laughBegin_def laughInit_def ui0_def setStatus_def)
  from classifier_error_tick [OF run err] run err show ?thesis
    by (simp add: f TICK_INTERVAL_def ROUND_DURATION_def)
qed

section \<open>Finalization happens once\<close>

text \<open>
  C9. In both modes a second invocation of \<open>stopRound\<close> for the same round, with any arguments,
  leaves the whole state as the first invocation left it, and so does a timer callback that fires
  after the round was stopped. When the round was running, the storage after both invocations is
  the result of the single \<open>saveScore\<close> write of the first one.
\<close>

theorem finalize_idempotent:
  "laughStopRound now2 nm2 sc2 (laughStopRound now1 nm1 sc1 s) = laughStopRound now1 nm1 sc1 s \<and>
   laughGameLoop inp (laughStopRound now1 nm1 sc1 s) = laughStopRound now1 nm1 sc1 s \<and>
   shakeStopRound now2 nm2 sc2 (shakeStopRound now1 nm1 sc1 t) = shakeStopRound now1 nm1 sc1 t \<and>
   shakeGameLoop now2 (shakeStopRound now1 nm1 sc1 t) = shakeStopRound now1 nm1 sc1 t \<and>
   (isRoundRunning s \<longrightarrow>
      storage (laughStopRound now2 nm2 sc2 (laughStopRound now1 nm1 sc1 s)) =
        fst (saveScore (storage s) now1 ''laugh'' nm1 sc1)) \<and>
   (isRoundRunning t \<longrightarrow>
      storage (shakeStopRound now2 nm2 sc2 (shakeStopRound now1 nm1 sc1 t)) =
        fst (saveScore (storage t) now1 ''shake'' nm1 sc1))"
proof -
  have a: "laughGameLoop inp (laughStopRound now1 nm1 sc1 s) = laughStopRound now1 nm1 sc1 s"
    by (rule laughGameLoop_stopped) (rule laughStopRound_fields)
  have b: "shakeGameLoop now2 (shakeStopRound now1 nm1 sc1 t) = shakeStopRound now1 nm1 sc1 t"
    using shakeStopRound_not_running [of now1 nm1 sc1 t] by (simp add: shakeGameLoop_def)
  show ?thesis
    by (intro conjI impI laughStopRound_idem shakeStopRound_idem a b)
       (simp_all add: laughStopRound_idem shakeStopRound_idem laughStopRound_storage shakeStopRound_storage)
qed

theorem finalize_idempotent_witness:
  "isRoundRunning laughStart \<and> isRoundRunning shakeAfterFirstEvent \<and>
   loadScores (storage (laughStopRound 9 ''Ann'' 0 (laughStopRound 8 ''Ann'' 42 laughStart))) ''laugh'' =
     [\<lparr>name = ''Ann'', score = 42, ts = 8\<rparr>] \<and>
   loadScores (storage (shakeStopRound 9 ''Ann'' 0 (shakeStopRound 8 ''Ann'' 42 shakeAfterFirstEvent))) ''shake'' =
     [\<lparr>name = ''Ann'', score = 42, ts = 8\<rparr>]"
proof -
  have r1: "isRoundRunning laughStart" by (simp add: laughStart_def laughBegin_fields)
  have r2: "isRoundRunning shakeAfterFirstEvent"
    by (simp add: shakeAfterFirstEvent_def onDeviceMotion_def Let_def shakeBegin_def)
  have st: "storage laughStart = Map.empty" "storage shakeAfterFirstEvent = Map.empty"
    by (simp_all add: laughStart_def laughBegin_def laughInit_def shakeAfterFirstEvent_def
        onDeviceMotion_def Let_def shakeBegin_def shakeInit_def cleanupMotion_def)
  note T = finalize_idempotent [of 9 "''Ann''" 0 8 "''Ann''" 42 laughStart failedTick shakeAfterFirstEvent]
  note L = T [THEN conjunct2, THEN conjunct2, THEN conjunct2, THEN conjunct2, THEN conjunct1, THEN mp, OF r1]
  note S = T [THEN conjunct2, THEN conjunct2, THEN conjunct2, THEN conjunct2, THEN conjunct2, THEN mp, OF r2]
  have a: "loadScores (storage (laughStopRound 9 ''Ann'' 0 (laughStopRound 8 ''Ann'' 42 laughStart))) ''laugh'' =
     [\<lparr>name = ''Ann'', score = 42, ts = 8\<rparr>]"
    unfolding L st by (simp add: saveScore_def loadScores_def Let_def)
  have b: "loadScores (storage (shakeStopRound 9 ''Ann'' 0 (shakeStopRound 8 ''Ann'' 42 shakeAfterFirstEvent))) ''shake'' =
     [\<lparr>name = ''Ann'', score = 42, ts = 8\<rparr>]"
    unfolding S st by (simp add: saveScore_def loadScores_def Let_def)
  from r1 r2 a b show ?thesis by (intro conjI)
qed

end
